theory Spec2Isabelle
  imports Complex_Main "HOL-Library.Sublist"
begin

section \<open>JavaScript values used by the import form\<close>

text \<open>
  The import form (\<^verbatim>\<open>ActivityImportForm\<close>) reads cells of a parsed CSV file. A cell that
  is read through \<^verbatim>\<open>row[columnIndex]\<close> is either a string or, when the index lies beyond
  the end of the row, the value \<^verbatim>\<open>undefined\<close>; TypeScript's type \<^verbatim>\<open>string\<close> does not
  exclude the latter at run time. Strings are sequences of 8-bit characters: the model
  covers ASCII text, for which \<^verbatim>\<open>trim\<close> strips the six ASCII white-space characters and
  \<^verbatim>\<open>toUpperCase\<close> changes the letters a to z only.
\<close>

datatype jsval = Undefined | Str string

text \<open>What a backend command rejects with; \<^verbatim>\<open>error.message\<close> reads the field.\<close>

datatype rejection = Rejection (message: jsval)

text \<open>
  What the code can throw: a TypeError from a method call on \<^verbatim>\<open>undefined\<close>, or the
  rejection of an awaited backend command.
\<close>

datatype thrown = TypeError | RejectedWith rejection

text \<open>Truthiness of a string-or-undefined value: \<^verbatim>\<open>undefined\<close> and \<^verbatim>\<open>''\<close> are falsy.\<close>

fun truthy :: "jsval \<Rightarrow> bool" where
  "truthy Undefined = False"
| "truthy (Str s) = (s \<noteq> [])"

definition is_ws :: "char \<Rightarrow> bool" where
  "is_ws c = (c \<in> set [CHR 0x09, CHR 0x0A, CHR 0x0B, CHR 0x0C, CHR 0x0D, CHR '' ''])"

definition trim :: "string \<Rightarrow> string" where
  "trim s = rev (dropWhile is_ws (rev (dropWhile is_ws s)))"

definition upper_char :: "char \<Rightarrow> char" where
  "upper_char c =
     (case map_of (zip ''abcdefghijklmnopqrstuvwxyz'' ''ABCDEFGHIJKLMNOPQRSTUVWXYZ'') c of
        Some u \<Rightarrow> u
      | None \<Rightarrow> c)"

definition toUpperCase :: "string \<Rightarrow> string" where
  "toUpperCase s = map upper_char s"

text \<open>\<^verbatim>\<open>v.trim()\<close> for a value typed as string: a TypeError when \<^verbatim>\<open>v\<close> is undefined.\<close>

fun trim_val :: "jsval \<Rightarrow> thrown + string" where
  "trim_val Undefined = Inl TypeError"
| "trim_val (Str s) = Inr (trim s)"

section \<open>Arrays\<close>

text \<open>\<^verbatim>\<open>xs.indexOf(x)\<close>: the first index holding \<^verbatim>\<open>x\<close>, or -1.\<close>

fun indexOf :: "string list \<Rightarrow> string \<Rightarrow> int" where
  "indexOf [] x = -1"
| "indexOf (h # hs) x =
     (if h = x then 0
      else (let r = indexOf hs x in if r = -1 then -1 else r + 1))"

text \<open>\<^verbatim>\<open>row[i]\<close>: reading outside the array gives \<^verbatim>\<open>undefined\<close>, it does not throw.\<close>

definition array_get :: "string list \<Rightarrow> int \<Rightarrow> jsval" where
  "array_get row i = (if 0 \<le> i \<and> i < int (length row) then Str (row ! nat i) else Undefined)"

section \<open>The import mapping\<close>

text \<open>
  Modelled from the spec: the declarations of \<^verbatim>\<open>ImportFormat\<close>, \<^verbatim>\<open>ImportMappingData\<close> and
  \<^verbatim>\<open>Account\<close> live in \<^verbatim>\<open>@/lib/types\<close>, which is not part of the sources at hand. The
  logical fields are the eight the specification lists; the mapping has the four
  components the form reads. \<^verbatim>\<open>fieldMappings\<close> is a partial record, \<^verbatim>\<open>activityMappings\<close> is
  kept as the list of its entries in the order \<^verbatim>\<open>Object.entries\<close> enumerates them (an entry
  may hold \<^verbatim>\<open>undefined\<close> in place of its pattern list), \<^verbatim>\<open>symbolMappings\<close> holds the
  own properties of the object; a read of it goes through \<open>get_property\<close> below.
\<close>

datatype ImportFormat =
  Date | Symbol | ActivityType | Quantity | UnitPrice | Currency | Fee | Amount

record ImportMappingData =
  accountId :: string
  fieldMappings :: "ImportFormat \<rightharpoonup> string"
  activityMappings :: "(string \<times> string list option) list"
  symbolMappings :: "string \<rightharpoonup> string"

record Account =
  account_id :: string \<comment> \<open>the field \<^verbatim>\<open>id\<close>\<close>
  account_name :: string \<comment> \<open>the field \<^verbatim>\<open>name\<close>\<close>
  account_currency :: string \<comment> \<open>the field \<^verbatim>\<open>currency\<close>\<close>

section \<open>Field resolver\<close>

text \<open>\<^verbatim>\<open>mapping.fieldMappings[field] || ''\<close>\<close>

fun or_empty :: "string option \<Rightarrow> string" where
  "or_empty None = []"
| "or_empty (Some s) = (if s = [] then [] else s)"

definition getMappedValue ::
  "string list \<Rightarrow> ImportMappingData \<Rightarrow> string list \<Rightarrow> ImportFormat \<Rightarrow> jsval" where
  "getMappedValue headers mapping row field =
     (let columnIndex = indexOf headers (or_empty (fieldMappings mapping field))
      in if columnIndex = -1 then Str [] else array_get row columnIndex)"

section \<open>Numbers\<close>

text \<open>
  A JavaScript number is a double. The model keeps what the form's control flow can
  observe: not-a-number, the two infinities, and finite values. A finite value is carried
  as the exact rational that the decimal text denotes; rounding to the nearest double is
  not modelled, and the two zeros are one value (they are equal under \<^verbatim>\<open>==\<close> and both
  falsy).
\<close>

datatype jsnum = NaN | PInf | NInf | Num rat

text \<open>Truthiness of a number: not-a-number and zero are falsy.\<close>

fun truthy_num :: "jsnum \<Rightarrow> bool" where
  "truthy_num NaN = False"
| "truthy_num (Num x) = (x \<noteq> 0)"
| "truthy_num _ = True"

text \<open>\<^verbatim>\<open>x || d\<close> with a number on the left and a number on the right.\<close>

definition num_or :: "jsnum \<Rightarrow> jsnum \<Rightarrow> jsnum" where
  "num_or x d = (if truthy_num x then x else d)"

text \<open>\<^verbatim>\<open>x || undefined\<close>\<close>

definition num_or_undefined :: "jsnum \<Rightarrow> jsnum option" where
  "num_or_undefined x = (if truthy_num x then Some x else None)"

text \<open>Truthiness of \<^verbatim>\<open>number | undefined\<close>, and \<^verbatim>\<open>amount || 0\<close> on such a value.\<close>

fun truthy_opt :: "jsnum option \<Rightarrow> bool" where
  "truthy_opt None = False"
| "truthy_opt (Some x) = truthy_num x"

fun opt_or :: "jsnum option \<Rightarrow> jsnum \<Rightarrow> jsnum" where
  "opt_or None d = d"
| "opt_or (Some x) d = num_or x d"

fun sign_of :: "jsnum \<Rightarrow> int" where
  "sign_of PInf = 1"
| "sign_of NInf = -1"
| "sign_of (Num x) = (if x < 0 then -1 else if x = 0 then 0 else 1)"
| "sign_of NaN = 0"

text \<open>Multiplication: an infinity times zero, and anything times not-a-number, is not-a-number.\<close>

fun js_mul :: "jsnum \<Rightarrow> jsnum \<Rightarrow> jsnum" where
  "js_mul NaN _ = NaN"
| "js_mul _ NaN = NaN"
| "js_mul (Num x) (Num y) = Num (x * y)"
| "js_mul a b =
     (let s = sign_of a * sign_of b
      in if s = 0 then NaN else if s < 0 then NInf else PInf)"

text \<open>\<^verbatim>\<open>a == b\<close> on numbers: not-a-number equals nothing, itself included.\<close>

fun js_eq :: "jsnum \<Rightarrow> jsnum \<Rightarrow> bool" where
  "js_eq NaN _ = False"
| "js_eq _ NaN = False"
| "js_eq a b = (a = b)"

subsection \<open>parseFloat\<close>

text \<open>
  \<^verbatim>\<open>parseFloat\<close> converts its argument to a string (\<^verbatim>\<open>undefined\<close> becomes the text
  \<^verbatim>\<open>undefined\<close>), skips leading white space, and reads the longest prefix that is a decimal
  literal: an optional sign, then either \<^verbatim>\<open>Infinity\<close> or digits with an optional fraction
  and an optional exponent. Without such a prefix the result is not-a-number.
\<close>

fun ToString :: "jsval \<Rightarrow> string" where
  "ToString Undefined = ''undefined''"
| "ToString (Str s) = s"

definition is_digit :: "char \<Rightarrow> bool" where
  "is_digit c = (c \<in> set ''0123456789'')"

definition digit_val :: "char \<Rightarrow> nat" where
  "digit_val c = of_char c - 48"

definition digits_val :: "string \<Rightarrow> nat" where
  "digits_val ds = foldl (\<lambda>a c. 10 * a + digit_val c) 0 ds"

text \<open>The exponent part: \<^verbatim>\<open>e\<close> or \<^verbatim>\<open>E\<close>, an optional sign, at least one digit; otherwise 0.\<close>

definition exponent_part :: "string \<Rightarrow> int" where
  "exponent_part s =
     (case s of
        [] \<Rightarrow> 0
      | c # r \<Rightarrow>
          if c = CHR ''e'' \<or> c = CHR ''E'' then
            (case r of
               [] \<Rightarrow> 0
             | d # r' \<Rightarrow>
                 if d = CHR ''-'' then
                   (if takeWhile is_digit r' = [] then 0
                    else - int (digits_val (takeWhile is_digit r')))
                 else if d = CHR ''+'' then int (digits_val (takeWhile is_digit r'))
                 else int (digits_val (takeWhile is_digit r)))
          else 0)"

definition scale10 :: "rat \<Rightarrow> int \<Rightarrow> rat" where
  "scale10 m e = (if 0 \<le> e then m * 10 ^ nat e else m / 10 ^ nat (- e))"

definition parse_unsigned :: "string \<Rightarrow> jsnum" where
  "parse_unsigned u =
     (if prefix ''Infinity'' u then PInf
      else
        (let ip = takeWhile is_digit u;
             r1 = dropWhile is_digit u;
             fp = (case r1 of [] \<Rightarrow> [] | c # r \<Rightarrow> if c = CHR ''.'' then takeWhile is_digit r else []);
             r2 = (case r1 of [] \<Rightarrow> [] | c # r \<Rightarrow> if c = CHR ''.'' then dropWhile is_digit r else r1)
         in if ip = [] \<and> fp = [] then NaN
            else Num (scale10 (of_nat (digits_val ip) + of_nat (digits_val fp) / 10 ^ length fp)
                        (exponent_part r2))))"

fun negate :: "jsnum \<Rightarrow> jsnum" where
  "negate NaN = NaN"
| "negate PInf = NInf"
| "negate NInf = PInf"
| "negate (Num x) = Num (- x)"

definition parseFloat :: "jsval \<Rightarrow> jsnum" where
  "parseFloat v =
     (case dropWhile is_ws (ToString v) of
        [] \<Rightarrow> NaN
      | c # r \<Rightarrow>
          if c = CHR ''-'' then negate (parse_unsigned r)
          else if c = CHR ''+'' then parse_unsigned r
          else parse_unsigned (c # r))"

section \<open>Type matcher\<close>

text \<open>
  The internal activity types are the string values of the enumeration \<^verbatim>\<open>ActivityType\<close>;
  the casts \<^verbatim>\<open>as ActivityType\<close> do nothing at run time, so the matcher returns a string.
\<close>

text \<open>The callback given to \<^verbatim>\<open>some\<close>.\<close>

definition matches_mappedType :: "string \<Rightarrow> string \<Rightarrow> bool" where
  "matches_mappedType normalizedCsvType mappedType =
     (let normalizedMappedType = toUpperCase (trim mappedType)
      in prefix normalizedMappedType normalizedCsvType)"

text \<open>\<^verbatim>\<open>csvTypes?.some(f)\<close>: an absent pattern list gives \<^verbatim>\<open>undefined\<close>, which is falsy.\<close>

fun some_opt :: "(string \<Rightarrow> bool) \<Rightarrow> string list option \<Rightarrow> bool" where
  "some_opt f None = False"
| "some_opt f (Some csvTypes) = list_ex f csvTypes"

text \<open>The loop over \<^verbatim>\<open>Object.entries(mapping.activityMappings)\<close>, with the fallback after it.\<close>

fun for_entries :: "string \<Rightarrow> string \<Rightarrow> (string \<times> string list option) list \<Rightarrow> string" where
  "for_entries normalizedCsvType csvType [] = csvType"
| "for_entries normalizedCsvType csvType ((appType, csvTypes) # rest) =
     (if some_opt (matches_mappedType normalizedCsvType) csvTypes then appType
      else for_entries normalizedCsvType csvType rest)"

definition getMappedActivityType ::
  "string list \<Rightarrow> ImportMappingData \<Rightarrow> string list \<Rightarrow> thrown + string" where
  "getMappedActivityType headers mapping row =
     (case getMappedValue headers mapping row ActivityType of
        Undefined \<Rightarrow> Inl TypeError
      | Str csvType \<Rightarrow>
          (let normalizedCsvType = toUpperCase (trim csvType)
           in Inr (for_entries normalizedCsvType csvType (activityMappings mapping))))"

section \<open>Row transformer\<close>

text \<open>
  A read \<^verbatim>\<open>obj[key]\<close> on a plain object whose own properties hold strings. An own
  property wins. Without one the read goes on to \<^verbatim>\<open>Object.prototype\<close>: for a name that
  the prototype defines it gives the inherited member, a function (for \<^verbatim>\<open>__proto__\<close> the
  prototype object), which is truthy and not a string; for any other key it gives
  \<^verbatim>\<open>undefined\<close>.
\<close>

datatype propval = PUndefined | PStr string | PInherited string

definition object_prototype_names :: "string list" where
  "object_prototype_names =
     [''constructor'', ''hasOwnProperty'', ''isPrototypeOf'', ''propertyIsEnumerable'',
      ''toLocaleString'', ''toString'', ''valueOf'', ''__proto__'', ''__defineGetter__'',
      ''__defineSetter__'', ''__lookupGetter__'', ''__lookupSetter__'']"

definition get_property :: "(string \<rightharpoonup> string) \<Rightarrow> string \<Rightarrow> propval" where
  "get_property obj key =
     (case obj key of
        Some v \<Rightarrow> PStr v
      | None \<Rightarrow> if key \<in> set object_prototype_names then PInherited key else PUndefined)"

text \<open>
  The object that the callback of \<^verbatim>\<open>csvData.slice(1).map\<close> returns. Its symbol and asset
  identifier are what the lookup in \<^verbatim>\<open>symbolMappings\<close> leaves: a string or an inherited member.
\<close>

record ActivityImport =
  date :: jsval
  assetId :: propval
  symbol :: propval
  activityType :: string
  quantity :: jsnum
  unitPrice :: jsnum
  currency :: jsval
  fee :: jsnum
  amount :: "jsnum option"
  activity_accountId :: string \<comment> \<open>the field \<^verbatim>\<open>accountId\<close>\<close>
  isValid :: bool
  isDraft :: bool
  comment :: string

text \<open>
  The branch on \<^verbatim>\<open>isCash\<close>: from the amount read so far and the raw Quantity and UnitPrice
  cells to the final amount, quantity and unit price.
\<close>

definition derive ::
  "bool \<Rightarrow> jsnum option \<Rightarrow> jsval \<Rightarrow> jsval \<Rightarrow> jsnum option \<times> jsnum \<times> jsnum" where
  "derive isCash amount0 rawQuantity rawUnitPrice =
     (if isCash then
        (let amount1 =
               (if \<not> truthy_opt amount0 then
                  (let quantity = num_or (parseFloat rawQuantity) (Num 1);
                       unitPrice = num_or (parseFloat rawUnitPrice) (Num 0)
                   in Some (js_mul quantity unitPrice))
                else amount0)
         in (amount1, Num 1, opt_or amount1 (Num 0)))
      else (amount0, parseFloat rawQuantity, parseFloat rawUnitPrice))"

text \<open>
  The amount as read from the CSV: \<^verbatim>\<open>if (rawAmount) { amount = parseFloat(rawAmount) || undefined; }\<close>
  on a variable that starts out undefined.
\<close>

definition read_amount :: "jsval \<Rightarrow> jsnum option" where
  "read_amount rawAmount =
     (if truthy rawAmount then num_or_undefined (parseFloat rawAmount) else None)"

text \<open>\<^verbatim>\<open>accounts?.find((a) => a.id === mapping.accountId)?.currency\<close>\<close>

definition account_currency_of :: "Account list option \<Rightarrow> string \<Rightarrow> jsval" where
  "account_currency_of accounts aid =
     (case accounts of
        None \<Rightarrow> Undefined
      | Some as \<Rightarrow>
          (case find (\<lambda>a. account_id a = aid) as of
             None \<Rightarrow> Undefined
           | Some a \<Rightarrow> Str (account_currency a)))"

text \<open>\<^verbatim>\<open>mapping.symbolMappings[rawSymbol] || rawSymbol\<close>\<close>

fun prop_or :: "propval \<Rightarrow> string \<Rightarrow> propval" where
  "prop_or PUndefined d = PStr d"
| "prop_or (PStr s) d = (if s = [] then PStr d else PStr s)"
| "prop_or (PInherited k) d = PInherited k"

text \<open>
  The transformation of one row. \<^verbatim>\<open>isCashActivity\<close> comes from
  \<^verbatim>\<open>./utils/csvValidation\<close>, which is not among the sources at hand, so the classifier is
  a parameter. The two calls of \<^verbatim>\<open>trim\<close> are the places where the callback can throw.
\<close>

definition handleImport_row ::
  "(string \<Rightarrow> bool) \<Rightarrow> Account list option \<Rightarrow> string list \<Rightarrow> ImportMappingData \<Rightarrow>
     string list \<Rightarrow> thrown + ActivityImport" where
  "handleImport_row isCashActivity accounts headers mapping row =
     (case getMappedActivityType headers mapping row of
        Inl e \<Rightarrow> Inl e
      | Inr activityType' \<Rightarrow>
          (let isCash = isCashActivity activityType';
               rawAmount = getMappedValue headers mapping row Amount;
               amount0 = read_amount rawAmount;
               d = derive isCash amount0 (getMappedValue headers mapping row Quantity)
                     (getMappedValue headers mapping row UnitPrice);
               currency' =
                 (if truthy (getMappedValue headers mapping row Currency)
                  then getMappedValue headers mapping row Currency
                  else account_currency_of accounts (accountId mapping))
           in case trim_val (getMappedValue headers mapping row Symbol) of
                Inl e \<Rightarrow> Inl e
              | Inr rawSymbol \<Rightarrow>
                  (let symbol' = prop_or (get_property (symbolMappings mapping) rawSymbol) rawSymbol
                   in Inr \<lparr>date = getMappedValue headers mapping row Date,
                           assetId = symbol',
                           symbol = symbol',
                           activityType = activityType',
                           quantity = fst (snd d),
                           unitPrice = snd (snd d),
                           currency = currency',
                           fee = num_or (parseFloat (getMappedValue headers mapping row Fee)) (Num 0),
                           amount = fst d,
                           activity_accountId = accountId mapping,
                           isValid = False,
                           isDraft = True,
                           comment = []\<rparr>)))"

section \<open>Validation, save and check\<close>

text \<open>
  What \<^verbatim>\<open>handleImport\<close> and the mutation do to the outside is recorded as a list of events
  in the order they happen: setting the validation errors, the two backend commands,
  the invalidation of the cached mapping, toasts, and calls of callbacks. A callback
  is a closure of the caller; its invocation is an event that carries what the closure
  was called for.
\<close>

type_synonym report = "(string \<times> string list) list"

datatype 'c event =
    SetValidationErrors report
  | SaveAccountImportMapping ImportMappingData
  | CheckActivitiesImport string "ActivityImport list"
  | InvalidateQueries
  | Toast string jsval
  | Callback 'c

text \<open>
  The two backend commands of \<^verbatim>\<open>@/commands/activity-import\<close> are outside the sources at
  hand: they are parameters. \<^verbatim>\<open>saveAccountImportMapping\<close> resolves (\<open>None\<close>) or rejects;
  \<^verbatim>\<open>checkActivitiesImport\<close> resolves with the checked activities or rejects.
\<close>

record backend =
  saveAccountImportMapping :: "ImportMappingData \<Rightarrow> rejection option"
  checkActivitiesImport :: "string \<Rightarrow> ActivityImport list \<Rightarrow> rejection + ActivityImport list"

text \<open>The options of \<^verbatim>\<open>useActivityImportMutations\<close>: both callbacks are optional.\<close>

record 'c hook_opts =
  onSuccess :: "(ActivityImport list \<Rightarrow> 'c) option"
  onError :: "(string \<Rightarrow> 'c) option"

text \<open>\<^verbatim>\<open>f?.(x)\<close>\<close>

fun call_opt :: "('a \<Rightarrow> 'c) option \<Rightarrow> 'a \<Rightarrow> 'c event list" where
  "call_opt None x = []"
| "call_opt (Some f) x = [Callback (f x)]"

text \<open>
  \<^verbatim>\<open>mutationFn\<close>: the save is awaited first; a rejection of it leaves the function at once.
  The result pairs the events with the outcome of the promise.
\<close>

definition mutationFn ::
  "backend \<Rightarrow> ImportMappingData \<Rightarrow> ActivityImport list \<Rightarrow>
     'c event list \<times> (rejection + ActivityImport list)" where
  "mutationFn be data activitiesToImport =
     (case saveAccountImportMapping be data of
        Some error \<Rightarrow> ([SaveAccountImportMapping data], Inl error)
      | None \<Rightarrow>
          ([SaveAccountImportMapping data,
            CheckActivitiesImport (accountId data) activitiesToImport],
           checkActivitiesImport be (accountId data) activitiesToImport))"

text \<open>
  \<^verbatim>\<open>saveAndCheckImportMutation.mutateAsync\<close>: the mutation is created without a
  \<^verbatim>\<open>retry\<close> option, so \<^verbatim>\<open>mutationFn\<close> runs once; then \<^verbatim>\<open>onSuccess\<close> or \<^verbatim>\<open>onError\<close> of the
  mutation runs, and the promise settles with the outcome.
\<close>

definition saveAndCheckImportMutation ::
  "'c hook_opts \<Rightarrow> backend \<Rightarrow> ImportMappingData \<Rightarrow> ActivityImport list \<Rightarrow>
     'c event list \<times> (rejection + ActivityImport list)" where
  "saveAndCheckImportMutation opts be data activitiesToImport =
     (case mutationFn be data activitiesToImport of
        (tr, Inr result) \<Rightarrow>
          (tr @ [InvalidateQueries] @ call_opt (onSuccess opts) result, Inr result)
      | (tr, Inl error) \<Rightarrow>
          (tr @ call_opt (onError opts) (''Import failed: '' @ ToString (message error))
              @ [Toast ''Error importing activities'' (message error)],
           Inl error))"

text \<open>
  Modelled from the spec: the persistence behind \<^verbatim>\<open>saveAccountImportMapping\<close> is not in the
  sources at hand; the specification describes it as an upsert keyed by the account
  identifier. \<open>persisted\<close> replays a list of events on a store of mappings: a save that
  resolved stores its mapping under its account; no other event touches the store.
\<close>

fun persisted ::
  "backend \<Rightarrow> 'c event list \<Rightarrow> (string \<rightharpoonup> ImportMappingData) \<Rightarrow> (string \<rightharpoonup> ImportMappingData)" where
  "persisted be [] st = st"
| "persisted be (SaveAccountImportMapping m # es) st =
     persisted be es (if saveAccountImportMapping be m = None then st(accountId m \<mapsto> m) else st)"
| "persisted be (_ # es) st = persisted be es st"

fun is_save :: "'c event \<Rightarrow> bool" where
  "is_save (SaveAccountImportMapping _) = True"
| "is_save _ = False"

fun is_check :: "'c event \<Rightarrow> bool" where
  "is_check (CheckActivitiesImport _ _) = True"
| "is_check _ = False"

subsection \<open>handleImport\<close>

text \<open>What the form's own callbacks \<^verbatim>\<open>onSuccess\<close> and \<^verbatim>\<open>onError\<close> are called with.\<close>

datatype prop_call =
    OnSuccess "ActivityImport list"
  | OnError string
  | OnError_caught thrown \<comment> \<open>\<^verbatim>\<open>onError(`Import failed: ${error}`)\<close> in the \<^verbatim>\<open>catch\<close> block\<close>

text \<open>The options the form hands to \<^verbatim>\<open>useActivityImportMutations\<close>.\<close>

definition form_opts :: "prop_call hook_opts" where
  "form_opts = \<lparr>onSuccess = Some OnSuccess,
                 onError = Some (\<lambda>error. OnError (''Import failed: '' @ error))\<rparr>"

text \<open>\<^verbatim>\<open>rows.map(f)\<close> where \<^verbatim>\<open>f\<close> may throw: the first throw ends the map.\<close>

fun try_map :: "('a \<Rightarrow> thrown + 'b) \<Rightarrow> 'a list \<Rightarrow> thrown + 'b list" where
  "try_map f [] = Inr []"
| "try_map f (x # xs) =
     (case f x of
        Inl e \<Rightarrow> Inl e
      | Inr y \<Rightarrow> (case try_map f xs of Inl e \<Rightarrow> Inl e | Inr ys \<Rightarrow> Inr (y # ys)))"

text \<open>
  \<^verbatim>\<open>handleImport\<close>. \<^verbatim>\<open>validateActivities\<close> comes from \<^verbatim>\<open>./utils/csvValidation\<close>, which is
  not among the sources at hand: it is a parameter, and its report is kept as the list of
  the entries of the object it returns. \<^verbatim>\<open>csvData.slice(1)\<close> drops the header row.
\<close>

definition handleImport ::
  "(string \<Rightarrow> bool) \<Rightarrow> (ActivityImport list \<Rightarrow> report) \<Rightarrow> backend \<Rightarrow> Account list option \<Rightarrow>
     string list \<Rightarrow> ImportMappingData \<Rightarrow> string list list \<Rightarrow> prop_call event list" where
  "handleImport isCashActivity validateActivities be accounts headers mapping csvData =
     (case try_map (handleImport_row isCashActivity accounts headers mapping) (tl csvData) of
        Inl error \<Rightarrow> [Callback (OnError_caught error)]
      | Inr activitiesToImport \<Rightarrow>
          (let validationErrors = validateActivities activitiesToImport
           in if length (map fst validationErrors) > 0 then [SetValidationErrors validationErrors]
              else
                (case saveAndCheckImportMutation form_opts be mapping activitiesToImport of
                   (tr, Inr result) \<Rightarrow> tr
                 | (tr, Inl error) \<Rightarrow> tr @ [Callback (OnError_caught (RejectedWith error))])))"

section \<open>The cash amount as the specification words it\<close>

text \<open>
  For comparison with \<open>derive\<close>: the amount of a cash-style row in the words of the
  specification. The amount is the value parsed from the Amount cell when there is one
  (a cell that does not parse counts as absent); otherwise it is quantity times unit price,
  where the quantity defaults to 1 and the unit price to 0 when parsing fails.
\<close>

definition default_on_failure :: "jsnum \<Rightarrow> jsnum \<Rightarrow> jsnum" where
  "default_on_failure x d = (if x = NaN then d else x)"

definition claimed_cash_amount :: "jsval \<Rightarrow> jsval \<Rightarrow> jsval \<Rightarrow> jsnum" where
  "claimed_cash_amount rawAmount rawQuantity rawUnitPrice =
     (if truthy rawAmount \<and> parseFloat rawAmount \<noteq> NaN then parseFloat rawAmount
      else js_mul (default_on_failure (parseFloat rawQuantity) (Num 1))
                  (default_on_failure (parseFloat rawUnitPrice) (Num 0)))"

section \<open>Example data\<close>

text \<open>A header row, a mapping for it, a classifier, a validator and backends, used to run the definitions.\<close>

definition hs_ex :: "string list" where
  "hs_ex = [''Trade Date'', ''Ticker'', ''Side'', ''Qty'', ''Price'', ''Fee'', ''Total'']"

definition m_ex :: ImportMappingData where
  "m_ex = \<lparr>accountId = ''acc-1'',
           fieldMappings = [Date \<mapsto> ''Trade Date'', Symbol \<mapsto> ''Ticker'', ActivityType \<mapsto> ''Side'',
                            Quantity \<mapsto> ''Qty'', UnitPrice \<mapsto> ''Price'', Fee \<mapsto> ''Fee'',
                            Amount \<mapsto> ''Total''],
           activityMappings = [(''DIVIDEND'', None), (''SELL'', Some [''sold'']),
                               (''BUY'', Some [''purchase'', '' buy '']), (''DEPOSIT'', Some [''dep''])],
           symbolMappings = [''APPLE'' \<mapsto> ''AAPL'', ''MSFT.X'' \<mapsto> '''']\<rparr>"

definition isCash_ex :: "string \<Rightarrow> bool" where
  "isCash_ex t = (t \<in> set [''DEPOSIT'', ''WITHDRAWAL'', ''DIVIDEND'', ''INTEREST'', ''FEE''])"

definition accounts_ex :: "Account list option" where
  "accounts_ex = Some [\<lparr>account_id = ''acc-1'', account_name = ''Broker'', account_currency = ''USD''\<rparr>]"

definition validate_ex :: "ActivityImport list \<Rightarrow> report" where
  "validate_ex acts =
     map (\<lambda>a. (ToString (date a), [''quantity is not a number''])) (filter (\<lambda>a. quantity a = NaN) acts)"

definition be_ok :: backend where
  "be_ok = \<lparr>saveAccountImportMapping = (\<lambda>m. None),
            checkActivitiesImport = (\<lambda>a acts. Inr acts)\<rparr>"

definition be_save_fails :: backend where
  "be_save_fails = \<lparr>saveAccountImportMapping = (\<lambda>m. Some (Rejection (Str ''read-only database''))),
                    checkActivitiesImport = (\<lambda>a acts. Inr acts)\<rparr>"

definition be_check_fails :: backend where
  "be_check_fails = \<lparr>saveAccountImportMapping = (\<lambda>m. None),
                     checkActivitiesImport = (\<lambda>a acts. Inl (Rejection (Str ''unknown symbol'')))\<rparr>"

definition row_buy :: "string list" where
  "row_buy = [''2024-01-05'', ''AAPL'', ''Buy - Market'', ''10'', ''150.00'', ''1.00'', '''']"

definition row_bad :: "string list" where
  "row_bad = [''2024-01-06'', '' APPLE '', ''sold'', ''ten'', ''n/a'', '''', '''']"

definition row_div :: "string list" where
  "row_div = [''2024-01-07'', ''MSFT.X'', '' div '', ''1'', ''2'', '''', '''']"

definition row_deposit :: "string list" where
  "row_deposit = [''2024-02-01'', '''', ''Deposit'', '''', '''', '''', ''500.00'']"

definition row_deposit_q0 :: "string list" where
  "row_deposit_q0 = [''2024-02-02'', '''', ''Deposit'', ''0'', ''5'', '''', '''']"

definition row_deposit_a0 :: "string list" where
  "row_deposit_a0 = [''2024-02-03'', '''', ''Deposit'', ''2'', ''3'', '''', ''0.00'']"

definition row_deposit_inf :: "string list" where
  "row_deposit_inf = [''2024-02-04'', '''', ''Deposit'', ''Infinity'', ''0'', '''', '''']"

definition row_ctor :: "string list" where
  "row_ctor = [''2024-01-08'', ''constructor'', ''sold'', ''1'', ''2'', '''', '''']"

definition row_buy_a0 :: "string list" where
  "row_buy_a0 = [''2024-02-05'', ''AAPL'', ''purchase'', ''2'', ''3'', '''', ''0'']"

section \<open>Properties of the field resolver\<close>

lemma indexOf_absent: "x \<notin> set hs \<Longrightarrow> indexOf hs x = -1"
  by (induction hs) (auto simp: Let_def)

lemma indexOf_present: "x \<in> set hs \<Longrightarrow> 0 \<le> indexOf hs x"
  by (induction hs) (auto simp: Let_def)

text \<open>
  When the header looked up (the configured one, or the empty string for an unmapped
  field) is not in the header list, the resolver returns the empty string whatever the
  row holds.
\<close>

lemma getMappedValue_absent:
  "or_empty (fieldMappings mapping field) \<notin> set headers \<Longrightarrow>
     getMappedValue headers mapping row field = Str []"
  by (simp add: getMappedValue_def indexOf_absent)

lemma getMappedValue_beyond_row:
  assumes "fieldMappings mapping field = Some h" and "h \<in> set headers"
    and "int (length row) \<le> indexOf headers h"
  shows "getMappedValue headers mapping row field = Undefined"
proof -
  have "0 \<le> indexOf headers h"
    using assms(2) by (rule indexOf_present)
  then have "indexOf headers h \<noteq> -1"
    by simp
  then show ?thesis
    using assms(1,3) by (simp add: getMappedValue_def array_get_def)
qed

lemmas resolver_defs = hs_ex_def m_ex_def getMappedValue_def array_get_def

lemmas string_defs = toUpperCase_def trim_def is_ws_def upper_char_def

lemmas number_defs = parseFloat_def parse_unsigned_def is_digit_def digits_val_def digit_val_def
  exponent_part_def scale10_def num_or_def num_or_undefined_def read_amount_def

text \<open>
  C7. The claim: the resolver returns the empty string whenever the field has no
  configured header, whatever the header list. The code looks an unmapped field up under
  the empty header name, so with a header list that holds an empty name (a CSV file whose
  header line ends in a comma) the unmapped field Currency resolves to the cell of that
  column, here the text 7, and not to the empty string.
\<close>

theorem getMappedValue_unmapped_blank_header:
  "fieldMappings m_ex Currency = None \<and>
   getMappedValue (hs_ex @ ['''']) m_ex (row_buy @ [''7'']) Currency = Str ''7''"
  by (simp add: resolver_defs row_buy_def)

section \<open>Properties of the row transformer: failure on a short row\<close>

lemma getMappedActivityType_Inl:
  "getMappedActivityType headers mapping row = Inl e \<Longrightarrow> e = TypeError"
  by (auto simp: getMappedActivityType_def split: jsval.splits)

lemma row_undefined_symbol:
  "getMappedValue headers mapping row Symbol = Undefined \<Longrightarrow>
     handleImport_row isCashActivity accounts headers mapping row = Inl TypeError"
  by (cases "getMappedActivityType headers mapping row")
     (auto simp: handleImport_row_def Let_def dest: getMappedActivityType_Inl)

text \<open>
  C10. When the header mapped to a field is in the header list and the row has fewer
  cells than the index of that header, the resolver returns \<^verbatim>\<open>undefined\<close>, not the empty
  string; for the field Symbol the transformation of the row then throws a TypeError.
\<close>

theorem short_row_undefined:
  assumes "fieldMappings mapping field = Some h" and "h \<in> set headers"
    and "int (length row) < indexOf headers h"
  shows "getMappedValue headers mapping row field = Undefined \<and>
         getMappedValue headers mapping row field \<noteq> Str [] \<and>
         (field = Symbol \<longrightarrow>
            handleImport_row isCashActivity accounts headers mapping row = Inl TypeError)"
proof -
  have "getMappedValue headers mapping row field = Undefined"
    using assms by (intro getMappedValue_beyond_row) auto
  then show ?thesis
    by (auto intro: row_undefined_symbol)
qed

theorem short_row_undefined_witness:
  "getMappedValue hs_ex m_ex [] Symbol = Undefined \<and>
   handleImport_row isCash_ex accounts_ex hs_ex m_ex [] = Inl TypeError"
proof -
  have 1: "fieldMappings m_ex Symbol = Some ''Ticker''"
    by (simp add: m_ex_def)
  have 2: "''Ticker'' \<in> set hs_ex"
    by (simp add: hs_ex_def)
  have 3: "int (length ([] :: string list)) < indexOf hs_ex ''Ticker''"
    by (simp add: hs_ex_def)
  show ?thesis
    using short_row_undefined [OF 1 2 3, of isCash_ex accounts_ex] by simp
qed

section \<open>Properties of the type matcher\<close>

lemma some_opt_iff:
  "some_opt (matches_mappedType n) cs \<longleftrightarrow>
     (\<exists>ps. cs = Some ps \<and> (\<exists>p\<in>set ps. prefix (toUpperCase (trim p)) n))"
  by (cases cs) (auto simp: list_ex_iff matches_mappedType_def)

lemma for_entries_none:
  "\<forall>e\<in>set es. \<not> some_opt (matches_mappedType n) (snd e) \<Longrightarrow> for_entries n c es = c"
  by (induction es) auto

lemma for_entries_first:
  "i < length es \<Longrightarrow> some_opt (matches_mappedType n) (snd (es ! i)) \<Longrightarrow>
     \<forall>j<i. \<not> some_opt (matches_mappedType n) (snd (es ! j)) \<Longrightarrow>
     for_entries n c es = fst (es ! i)"
proof (induction es arbitrary: i)
  case Nil
  then show ?case by simp
next
  case (Cons e es)
  obtain k cs where e: "e = (k, cs)"
    by (cases e)
  show ?case
  proof (cases i)
    case 0
    with Cons.prems e show ?thesis by simp
  next
    case (Suc i')
    have head: "\<not> some_opt (matches_mappedType n) cs"
      using Cons.prems(3) Suc e by (auto dest: spec [of _ 0])
    have "for_entries n c es = fst (es ! i')"
    proof (rule Cons.IH)
      show "i' < length es"
        using Cons.prems(1) Suc by simp
      show "some_opt (matches_mappedType n) (snd (es ! i'))"
        using Cons.prems(2) Suc by simp
      show "\<forall>j<i'. \<not> some_opt (matches_mappedType n) (snd (es ! j))"
        using Cons.prems(3) Suc by (auto dest: spec [of _ "Suc _"])
    qed
    with head e Suc show ?thesis by simp
  qed
qed

text \<open>
  C1, as amended. When the Activity Type cell is a string and no configured pattern,
  trimmed and upper-cased, is a prefix of the trimmed and upper-cased cell, the matcher
  returns the cell as it stands in the row: neither trimmed nor upper-cased.
\<close>

theorem getMappedActivityType_fallback:
  assumes "getMappedValue headers mapping row ActivityType = Str csvType"
    and "\<forall>(appType, csvTypes) \<in> set (activityMappings mapping).
           \<forall>ps. csvTypes = Some ps \<longrightarrow>
             (\<forall>p\<in>set ps. \<not> prefix (toUpperCase (trim p)) (toUpperCase (trim csvType)))"
  shows "getMappedActivityType headers mapping row = Inr csvType"
proof -
  have "\<forall>e\<in>set (activityMappings mapping).
          \<not> some_opt (matches_mappedType (toUpperCase (trim csvType))) (snd e)"
    using assms(2) by (auto simp: some_opt_iff)
  then show ?thesis
    using assms(1) by (simp add: getMappedActivityType_def for_entries_none)
qed

theorem getMappedActivityType_fallback_witness:
  "getMappedActivityType hs_ex m_ex row_div = Inr '' div ''"
proof -
  have 1: "getMappedValue hs_ex m_ex row_div ActivityType = Str '' div ''"
    by (simp add: resolver_defs row_div_def)
  have 2: "\<forall>(appType, csvTypes) \<in> set (activityMappings m_ex).
           \<forall>ps. csvTypes = Some ps \<longrightarrow>
             (\<forall>p\<in>set ps. \<not> prefix (toUpperCase (trim p)) (toUpperCase (trim '' div '')))"
    by (simp add: m_ex_def string_defs)
  show ?thesis
    using getMappedActivityType_fallback [OF 1 2] .
qed

text \<open>
  The claim C1 as it is written fails: for the cell \<^verbatim>\<open>' div '\<close>, which no pattern of the
  example mapping matches, the matcher returns the cell unchanged and not its trimmed
  and upper-cased form \<^verbatim>\<open>'DIV'\<close>.
\<close>

theorem getMappedActivityType_fallback_not_normalized:
  "getMappedValue hs_ex m_ex row_div ActivityType = Str '' div '' \<and>
   \<not> list_ex (\<lambda>(appType, csvTypes).
        some_opt (\<lambda>p. prefix (toUpperCase (trim p)) (toUpperCase (trim '' div ''))) csvTypes)
      (activityMappings m_ex) \<and>
   toUpperCase (trim '' div '') = ''DIV'' \<and>
   getMappedActivityType hs_ex m_ex row_div \<noteq> Inr (toUpperCase (trim '' div ''))"
  by (simp add: resolver_defs row_div_def getMappedActivityType_def matches_mappedType_def string_defs)

text \<open>
  C3. When the Activity Type cell is a string, the matcher trims and upper-cases it,
  does the same to every configured pattern, takes a pattern to match when it is a prefix
  of the cell so normalized, and returns the internal type of the first entry, in the
  order of the mapping's entries, that has a matching pattern.
\<close>

theorem getMappedActivityType_first_match:
  assumes "getMappedValue headers mapping row ActivityType = Str csvType"
    and "i < length (activityMappings mapping)"
    and "activityMappings mapping ! i = (appType, Some ps)"
    and "\<exists>p\<in>set ps. prefix (toUpperCase (trim p)) (toUpperCase (trim csvType))"
    and "\<forall>j<i. \<forall>qs. snd (activityMappings mapping ! j) = Some qs \<longrightarrow>
           (\<forall>q\<in>set qs. \<not> prefix (toUpperCase (trim q)) (toUpperCase (trim csvType)))"
  shows "getMappedActivityType headers mapping row = Inr appType"
proof -
  let ?n = "toUpperCase (trim csvType)"
  have here: "some_opt (matches_mappedType ?n) (snd (activityMappings mapping ! i))"
    using assms(3,4) by (auto simp: list_ex_iff matches_mappedType_def)
  have before: "\<forall>j<i. \<not> some_opt (matches_mappedType ?n) (snd (activityMappings mapping ! j))"
    using assms(5) by (auto simp: some_opt_iff)
  have "for_entries ?n csvType (activityMappings mapping) = fst (activityMappings mapping ! i)"
    using assms(2) here before by (rule for_entries_first)
  then show ?thesis
    using assms(1,3) by (simp add: getMappedActivityType_def)
qed

theorem getMappedActivityType_first_match_witness:
  "getMappedActivityType hs_ex m_ex row_buy = Inr ''BUY''"
proof -
  have 1: "getMappedValue hs_ex m_ex row_buy ActivityType = Str ''Buy - Market''"
    by (simp add: resolver_defs row_buy_def)
  have 2: "2 < length (activityMappings m_ex)"
    by (simp add: m_ex_def)
  have 3: "activityMappings m_ex ! 2 = (''BUY'', Some [''purchase'', '' buy ''])"
    by (simp add: m_ex_def)
  have 4: "\<exists>p\<in>set [''purchase'', '' buy ''].
             prefix (toUpperCase (trim p)) (toUpperCase (trim ''Buy - Market''))"
    by (simp add: string_defs)
  have 5: "\<forall>j<2. \<forall>qs. snd (activityMappings m_ex ! j) = Some qs \<longrightarrow>
           (\<forall>q\<in>set qs. \<not> prefix (toUpperCase (trim q)) (toUpperCase (trim ''Buy - Market'')))"
    by (simp add: m_ex_def string_defs less_Suc_eq numeral_2_eq_2)
  show ?thesis
    using getMappedActivityType_first_match [OF 1 2 3 4 5] .
qed


section \<open>Properties of the row transformer: the fields of the record\<close>

text \<open>A row that is transformed had its type matched and its Symbol cell read as a string.\<close>

lemma row_Inr:
  assumes "handleImport_row isCashActivity accounts headers mapping row = Inr r"
  obtains t raw where
    "getMappedActivityType headers mapping row = Inr t"
    "getMappedValue headers mapping row Symbol = Str raw"
    "activityType r = t"
    "symbol r = prop_or (get_property (symbolMappings mapping) (trim raw)) (trim raw)"
    "assetId r = symbol r"
    "amount r = fst (derive (isCashActivity t)
        (read_amount (getMappedValue headers mapping row Amount))
        (getMappedValue headers mapping row Quantity) (getMappedValue headers mapping row UnitPrice))"
    "quantity r = fst (snd (derive (isCashActivity t)
        (read_amount (getMappedValue headers mapping row Amount))
        (getMappedValue headers mapping row Quantity) (getMappedValue headers mapping row UnitPrice)))"
    "unitPrice r = snd (snd (derive (isCashActivity t)
        (read_amount (getMappedValue headers mapping row Amount))
        (getMappedValue headers mapping row Quantity) (getMappedValue headers mapping row UnitPrice)))"
  using assms
  by (cases "getMappedActivityType headers mapping row";
      cases "getMappedValue headers mapping row Symbol")
     (auto simp: handleImport_row_def Let_def)

lemma derive_position: "derive False a q p = (a, parseFloat q, parseFloat p)"
  by (simp add: derive_def)

lemma derive_cash_given:
  "truthy_opt a \<Longrightarrow> derive True a q p = (a, Num 1, opt_or a (Num 0))"
  by (simp add: derive_def)

lemma derive_cash_absent:
  "\<not> truthy_opt a \<Longrightarrow>
     derive True a q p =
       (Some (js_mul (num_or (parseFloat q) (Num 1)) (num_or (parseFloat p) (Num 0))),
        Num 1,
        num_or (js_mul (num_or (parseFloat q) (Num 1)) (num_or (parseFloat p) (Num 0))) (Num 0))"
  by (simp add: derive_def Let_def)

lemma read_amount_truthy:
  "truthy_opt (read_amount v) \<longleftrightarrow> truthy v \<and> truthy_num (parseFloat v)"
  by (simp add: read_amount_def num_or_undefined_def)

lemma read_amount_Some:
  "truthy v \<Longrightarrow> truthy_num (parseFloat v) \<Longrightarrow> read_amount v = Some (parseFloat v)"
  by (simp add: read_amount_def num_or_undefined_def)

lemma read_amount_zero: "parseFloat v = Num 0 \<Longrightarrow> read_amount v = None"
  by (simp add: read_amount_def num_or_undefined_def)

lemma js_eq_num_or: "a \<noteq> NaN \<Longrightarrow> js_eq (num_or a (Num 0)) a"
  by (cases a) (auto simp: num_or_def)

lemmas row_defs = handleImport_row_def getMappedActivityType_def matches_mappedType_def derive_def
  account_currency_of_def isCash_ex_def accounts_ex_def get_property_def object_prototype_names_def

lemma position_row_exact:
  assumes "getMappedActivityType headers mapping row = Inr t"
    and "\<not> isCashActivity t"
    and "handleImport_row isCashActivity accounts headers mapping row = Inr r"
  shows "quantity r = parseFloat (getMappedValue headers mapping row Quantity)"
    and "unitPrice r = parseFloat (getMappedValue headers mapping row UnitPrice)"
proof -
  let ?d = "derive (isCashActivity t)
        (read_amount (getMappedValue headers mapping row Amount))
        (getMappedValue headers mapping row Quantity) (getMappedValue headers mapping row UnitPrice)"
  from assms(3) have "quantity r = fst (snd ?d) \<and> unitPrice r = snd (snd ?d)"
  proof (rule row_Inr)
    fix t'
    assume "getMappedActivityType headers mapping row = Inr t'"
      and "quantity r = fst (snd (derive (isCashActivity t')
        (read_amount (getMappedValue headers mapping row Amount))
        (getMappedValue headers mapping row Quantity) (getMappedValue headers mapping row UnitPrice)))"
      and "unitPrice r = snd (snd (derive (isCashActivity t')
        (read_amount (getMappedValue headers mapping row Amount))
        (getMappedValue headers mapping row Quantity) (getMappedValue headers mapping row UnitPrice)))"
    with assms(1) show ?thesis
      by simp
  qed
  with assms(2) show "quantity r = parseFloat (getMappedValue headers mapping row Quantity)"
    and "unitPrice r = parseFloat (getMappedValue headers mapping row UnitPrice)"
    by (simp_all add: derive_position)
qed

text \<open>
  C6. For a row whose matched activity type is not cash-style, the quantity and the unit
  price of the record are what \<^verbatim>\<open>parseFloat\<close> gives on the Quantity and UnitPrice fields,
  with no default: where the parse gives not-a-number, the record holds not-a-number.
\<close>

theorem position_row_parsed_exactly:
  assumes "getMappedActivityType headers mapping row = Inr t"
    and "\<not> isCashActivity t"
    and "handleImport_row isCashActivity accounts headers mapping row = Inr r"
  shows "quantity r = parseFloat (getMappedValue headers mapping row Quantity) \<and>
         unitPrice r = parseFloat (getMappedValue headers mapping row UnitPrice) \<and>
         (parseFloat (getMappedValue headers mapping row Quantity) = NaN \<longrightarrow> quantity r = NaN) \<and>
         (parseFloat (getMappedValue headers mapping row UnitPrice) = NaN \<longrightarrow> unitPrice r = NaN)"
  using position_row_exact [OF assms] by simp

theorem position_row_parsed_exactly_witness:
  "getMappedActivityType hs_ex m_ex row_bad = Inr ''SELL'' \<and>
   parseFloat (getMappedValue hs_ex m_ex row_bad Quantity) = NaN \<and>
   parseFloat (getMappedValue hs_ex m_ex row_bad UnitPrice) = NaN \<and>
   map_sum id quantity (handleImport_row isCash_ex accounts_ex hs_ex m_ex row_bad) = Inr NaN \<and>
   map_sum id unitPrice (handleImport_row isCash_ex accounts_ex hs_ex m_ex row_bad) = Inr NaN"
proof -
  obtain r where r: "handleImport_row isCash_ex accounts_ex hs_ex m_ex row_bad = Inr r"
    by (simp add: row_defs resolver_defs row_bad_def string_defs Let_def)
  have t: "getMappedActivityType hs_ex m_ex row_bad = Inr ''SELL''"
    by (simp add: row_defs resolver_defs row_bad_def string_defs)
  have c: "\<not> isCash_ex ''SELL''"
    by (simp add: isCash_ex_def)
  have q: "parseFloat (getMappedValue hs_ex m_ex row_bad Quantity) = NaN"
    by (simp add: resolver_defs row_bad_def number_defs is_ws_def)
  have p: "parseFloat (getMappedValue hs_ex m_ex row_bad UnitPrice) = NaN"
    by (simp add: resolver_defs row_bad_def number_defs is_ws_def)
  show ?thesis
    using position_row_parsed_exactly [OF t c r] r t q p by simp
qed

text \<open>
  C9. When the Amount cell of a row is a string that parses to exactly 0, the amount read
  from the CSV counts as absent: for a cash-style row the record's amount is the product
  of the quantity (1 when the Quantity field parses to not-a-number or 0) and the unit
  price (0 when the UnitPrice field parses to not-a-number) derived from the two
  fields; for any other row the record's amount is undefined.
\<close>

theorem zero_amount_is_absent:
  assumes "getMappedValue headers mapping row Amount = Str a"
    and "parseFloat (Str a) = Num 0"
    and "getMappedActivityType headers mapping row = Inr t"
    and "handleImport_row isCashActivity accounts headers mapping row = Inr r"
  shows "amount r =
           (if isCashActivity t
            then Some (js_mul (num_or (parseFloat (getMappedValue headers mapping row Quantity)) (Num 1))
                              (num_or (parseFloat (getMappedValue headers mapping row UnitPrice)) (Num 0)))
            else None)"
  using assms(4)
proof (rule row_Inr)
  fix t'
  assume t': "getMappedActivityType headers mapping row = Inr t'"
    and a: "amount r = fst (derive (isCashActivity t')
        (read_amount (getMappedValue headers mapping row Amount))
        (getMappedValue headers mapping row Quantity) (getMappedValue headers mapping row UnitPrice))"
  from t' assms(3) have "t' = t"
    by simp
  moreover have "read_amount (getMappedValue headers mapping row Amount) = None"
    using assms(1,2) by (simp add: read_amount_zero)
  ultimately show ?thesis
    using a by (cases "isCashActivity t") (simp_all add: derive_position derive_cash_absent)
qed

theorem zero_amount_is_absent_witness:
  "parseFloat (Str ''0.00'') = Num 0 \<and>
   map_sum id amount (handleImport_row isCash_ex accounts_ex hs_ex m_ex row_deposit_a0) = Inr (Some (Num 6)) \<and>
   parseFloat (Str ''0'') = Num 0 \<and>
   map_sum id amount (handleImport_row isCash_ex accounts_ex hs_ex m_ex row_buy_a0) = Inr None"
proof -
  obtain r where r: "handleImport_row isCash_ex accounts_ex hs_ex m_ex row_deposit_a0 = Inr r"
    by (simp add: row_defs resolver_defs row_deposit_a0_def string_defs Let_def)
  have a: "getMappedValue hs_ex m_ex row_deposit_a0 Amount = Str ''0.00''"
    by (simp add: resolver_defs row_deposit_a0_def)
  have z: "parseFloat (Str ''0.00'') = Num 0"
    by (simp add: number_defs is_ws_def)
  have t: "getMappedActivityType hs_ex m_ex row_deposit_a0 = Inr ''DEPOSIT''"
    by (simp add: row_defs resolver_defs row_deposit_a0_def string_defs)
  have q: "parseFloat (getMappedValue hs_ex m_ex row_deposit_a0 Quantity) = Num 2"
    by (simp add: resolver_defs row_deposit_a0_def number_defs is_ws_def)
  have p: "parseFloat (getMappedValue hs_ex m_ex row_deposit_a0 UnitPrice) = Num 3"
    by (simp add: resolver_defs row_deposit_a0_def number_defs is_ws_def)
  have cash: "map_sum id amount (handleImport_row isCash_ex accounts_ex hs_ex m_ex row_deposit_a0) = Inr (Some (Num 6))"
    using zero_amount_is_absent [OF a z t r] r q p by (simp add: isCash_ex_def num_or_def)
  obtain r' where r': "handleImport_row isCash_ex accounts_ex hs_ex m_ex row_buy_a0 = Inr r'"
    by (simp add: row_defs resolver_defs row_buy_a0_def string_defs Let_def)
  have a': "getMappedValue hs_ex m_ex row_buy_a0 Amount = Str ''0''"
    by (simp add: resolver_defs row_buy_a0_def)
  have z': "parseFloat (Str ''0'') = Num 0"
    by (simp add: number_defs is_ws_def)
  have t': "getMappedActivityType hs_ex m_ex row_buy_a0 = Inr ''BUY''"
    by (simp add: row_defs resolver_defs row_buy_a0_def string_defs)
  have pos: "map_sum id amount (handleImport_row isCash_ex accounts_ex hs_ex m_ex row_buy_a0) = Inr None"
    using zero_amount_is_absent [OF a' z' t' r'] r' by (simp add: isCash_ex_def)
  show ?thesis
    using cash pos z z' by simp
qed

text \<open>
  C2, as amended. For a row whose matched activity type is cash-style, the record has
  quantity 1, its amount is the value parsed from the Amount field when that field is a
  non-empty string that parses to a number other than 0, and otherwise the product of the
  quantity (parsed from the Quantity field, 1 when the parse gives not-a-number or 0) and
  the unit price (parsed from the UnitPrice field, 0 when the parse gives not-a-number);
  its unit price is that amount, or 0 when the amount is not-a-number, so that
  \<^verbatim>\<open>unitPrice == amount\<close> holds whenever the amount is a number.
\<close>

theorem cash_row_normalized:
  assumes "getMappedActivityType headers mapping row = Inr t"
    and "isCashActivity t"
    and "handleImport_row isCashActivity accounts headers mapping row = Inr r"
  shows "let rawAmount = getMappedValue headers mapping row Amount;
             a = (if truthy rawAmount \<and> truthy_num (parseFloat rawAmount) then parseFloat rawAmount
                  else js_mul (num_or (parseFloat (getMappedValue headers mapping row Quantity)) (Num 1))
                              (num_or (parseFloat (getMappedValue headers mapping row UnitPrice)) (Num 0)))
         in quantity r = Num 1 \<and> amount r = Some a \<and> unitPrice r = num_or a (Num 0) \<and>
            (a \<noteq> NaN \<longrightarrow> js_eq (unitPrice r) a)"
  using assms(3)
proof (rule row_Inr)
  fix t'
  let ?d = "derive (isCashActivity t')
        (read_amount (getMappedValue headers mapping row Amount))
        (getMappedValue headers mapping row Quantity) (getMappedValue headers mapping row UnitPrice)"
  assume t': "getMappedActivityType headers mapping row = Inr t'"
    and a: "amount r = fst ?d"
    and q: "quantity r = fst (snd ?d)"
    and p: "unitPrice r = snd (snd ?d)"
  from t' assms(1,2) have cash: "isCashActivity t'"
    by simp
  show ?thesis
  proof (cases "truthy_opt (read_amount (getMappedValue headers mapping row Amount))")
    case True
    then have given: "truthy (getMappedValue headers mapping row Amount)"
        "truthy_num (parseFloat (getMappedValue headers mapping row Amount))"
      by (simp_all add: read_amount_truthy)
    then have "read_amount (getMappedValue headers mapping row Amount) =
        Some (parseFloat (getMappedValue headers mapping row Amount))"
      by (rule read_amount_Some)
    with True cash a q p given show ?thesis
      by (simp add: derive_cash_given Let_def js_eq_num_or)
  next
    case False
    then have "\<not> (truthy (getMappedValue headers mapping row Amount) \<and>
        truthy_num (parseFloat (getMappedValue headers mapping row Amount)))"
      by (simp add: read_amount_truthy)
    with False cash a q p show ?thesis
      by (auto simp add: derive_cash_absent Let_def js_eq_num_or)
  qed
qed

theorem cash_row_normalized_witness:
  "getMappedActivityType hs_ex m_ex row_deposit = Inr ''DEPOSIT'' \<and> isCash_ex ''DEPOSIT'' \<and>
   parseFloat (getMappedValue hs_ex m_ex row_deposit Amount) = Num 500 \<and>
   map_sum id quantity (handleImport_row isCash_ex accounts_ex hs_ex m_ex row_deposit) = Inr (Num 1) \<and>
   map_sum id unitPrice (handleImport_row isCash_ex accounts_ex hs_ex m_ex row_deposit) = Inr (Num 500) \<and>
   map_sum id amount (handleImport_row isCash_ex accounts_ex hs_ex m_ex row_deposit) = Inr (Some (Num 500))"
proof -
  obtain r where r: "handleImport_row isCash_ex accounts_ex hs_ex m_ex row_deposit = Inr r"
    by (simp add: row_defs resolver_defs row_deposit_def string_defs Let_def)
  have t: "getMappedActivityType hs_ex m_ex row_deposit = Inr ''DEPOSIT''"
    by (simp add: row_defs resolver_defs row_deposit_def string_defs)
  have c: "isCash_ex ''DEPOSIT''"
    by (simp add: isCash_ex_def)
  have a: "getMappedValue hs_ex m_ex row_deposit Amount = Str ''500.00''"
    by (simp add: resolver_defs row_deposit_def)
  have n: "parseFloat (Str ''500.00'') = Num 500"
    by (simp add: number_defs is_ws_def)
  show ?thesis
    using cash_row_normalized [OF t c r] r t c a n by (simp add: Let_def num_or_def)
qed

text \<open>
  The claim C2 as it is written fails in three ways. A Quantity cell \<^verbatim>\<open>0\<close> parses, yet the
  quantity used is 1: the amount of the row is 5 where the claim gives 0 times 5. An
  Amount cell \<^verbatim>\<open>0.00\<close> is present and parses, yet the amount is derived as 2 times 3. With
  the Quantity cell \<^verbatim>\<open>Infinity\<close> and the UnitPrice cell \<^verbatim>\<open>0\<close> the amount is
  not-a-number and the unit price is 0, which are not equal.
\<close>

theorem cash_row_claim_fails:
  "getMappedActivityType hs_ex m_ex row_deposit_q0 = Inr ''DEPOSIT'' \<and> isCash_ex ''DEPOSIT'' \<and>
   claimed_cash_amount (getMappedValue hs_ex m_ex row_deposit_q0 Amount)
     (getMappedValue hs_ex m_ex row_deposit_q0 Quantity)
     (getMappedValue hs_ex m_ex row_deposit_q0 UnitPrice) = Num 0 \<and>
   map_sum id amount (handleImport_row isCash_ex accounts_ex hs_ex m_ex row_deposit_q0) = Inr (Some (Num 5)) \<and>
   getMappedActivityType hs_ex m_ex row_deposit_a0 = Inr ''DEPOSIT'' \<and>
   claimed_cash_amount (getMappedValue hs_ex m_ex row_deposit_a0 Amount)
     (getMappedValue hs_ex m_ex row_deposit_a0 Quantity)
     (getMappedValue hs_ex m_ex row_deposit_a0 UnitPrice) = Num 0 \<and>
   map_sum id amount (handleImport_row isCash_ex accounts_ex hs_ex m_ex row_deposit_a0) = Inr (Some (Num 6)) \<and>
   getMappedActivityType hs_ex m_ex row_deposit_inf = Inr ''DEPOSIT'' \<and>
   map_sum id amount (handleImport_row isCash_ex accounts_ex hs_ex m_ex row_deposit_inf) = Inr (Some NaN) \<and>
   map_sum id unitPrice (handleImport_row isCash_ex accounts_ex hs_ex m_ex row_deposit_inf) = Inr (Num 0) \<and>
   \<not> js_eq (Num 0) NaN"
proof -
  have "parseFloat (Str '''') = NaN" "parseFloat (Str ''0'') = Num 0" "parseFloat (Str ''5'') = Num 5"
    "parseFloat (Str ''2'') = Num 2" "parseFloat (Str ''3'') = Num 3" "parseFloat (Str ''0.00'') = Num 0"
    "parseFloat (Str ''Infinity'') = PInf"
    by (simp_all add: number_defs is_ws_def)
  then show ?thesis
    by (simp add: row_defs resolver_defs string_defs Let_def claimed_cash_amount_def
        default_on_failure_def row_deposit_q0_def row_deposit_a0_def row_deposit_inf_def
        read_amount_def num_or_undefined_def num_or_def)
qed

text \<open>The lookup gives a string whenever the key has an own entry or is no inherited name.\<close>

lemma prop_or_get_property:
  "obj key \<noteq> None \<or> key \<notin> set object_prototype_names \<Longrightarrow>
     prop_or (get_property obj key) key =
       PStr (case obj key of None \<Rightarrow> key | Some s \<Rightarrow> if s = [] then key else s)"
  by (cases "obj key") (auto simp: get_property_def)

text \<open>
  C8, as amended. The record's asset identifier equals its symbol. When the trimmed
  Symbol cell has an entry of its own in \<^verbatim>\<open>symbolMappings\<close>, or is not the name of a
  property that a plain object inherits from \<^verbatim>\<open>Object.prototype\<close>, the record's symbol is
  the trimmed cell, replaced by its entry when there is one and the entry is not the empty
  string, and the trimmed cell otherwise.
\<close>

theorem symbol_resolution:
  assumes "getMappedValue headers mapping row Symbol = Str raw"
    and "handleImport_row isCashActivity accounts headers mapping row = Inr r"
  shows "assetId r = symbol r \<and>
         (symbolMappings mapping (trim raw) \<noteq> None \<or> trim raw \<notin> set object_prototype_names \<longrightarrow>
            symbol r =
              PStr (case symbolMappings mapping (trim raw) of
                      None \<Rightarrow> trim raw
                    | Some s \<Rightarrow> if s = [] then trim raw else s))"
  using assms(2)
proof (rule row_Inr)
  fix raw'
  assume raw': "getMappedValue headers mapping row Symbol = Str raw'"
    and s: "symbol r = prop_or (get_property (symbolMappings mapping) (trim raw')) (trim raw')"
    and i: "assetId r = symbol r"
  from raw' assms(1) have "raw' = raw"
    by simp
  with s i show ?thesis
    by (simp add: prop_or_get_property)
qed

theorem symbol_resolution_witness:
  "getMappedValue hs_ex m_ex row_bad Symbol = Str '' APPLE '' \<and>
   symbolMappings m_ex (trim '' APPLE '') = Some ''AAPL'' \<and>
   map_sum id symbol (handleImport_row isCash_ex accounts_ex hs_ex m_ex row_bad) = Inr (PStr ''AAPL'') \<and>
   map_sum id assetId (handleImport_row isCash_ex accounts_ex hs_ex m_ex row_bad) = Inr (PStr ''AAPL'') \<and>
   getMappedValue hs_ex m_ex row_buy Symbol = Str ''AAPL'' \<and>
   symbolMappings m_ex (trim ''AAPL'') = None \<and>
   trim ''AAPL'' \<notin> set object_prototype_names \<and>
   map_sum id symbol (handleImport_row isCash_ex accounts_ex hs_ex m_ex row_buy) = Inr (PStr ''AAPL'')"
proof -
  obtain r where r: "handleImport_row isCash_ex accounts_ex hs_ex m_ex row_bad = Inr r"
    by (simp add: row_defs resolver_defs row_bad_def string_defs Let_def)
  have s: "getMappedValue hs_ex m_ex row_bad Symbol = Str '' APPLE ''"
    by (simp add: resolver_defs row_bad_def)
  have m: "symbolMappings m_ex (trim '' APPLE '') = Some ''AAPL''"
    by (simp add: m_ex_def string_defs)
  have mapped: "map_sum id symbol (handleImport_row isCash_ex accounts_ex hs_ex m_ex row_bad) = Inr (PStr ''AAPL'') \<and>
      map_sum id assetId (handleImport_row isCash_ex accounts_ex hs_ex m_ex row_bad) = Inr (PStr ''AAPL'')"
    using symbol_resolution [OF s r] r m by simp
  obtain r' where r': "handleImport_row isCash_ex accounts_ex hs_ex m_ex row_buy = Inr r'"
    by (simp add: row_defs resolver_defs row_buy_def string_defs Let_def)
  have s': "getMappedValue hs_ex m_ex row_buy Symbol = Str ''AAPL''"
    by (simp add: resolver_defs row_buy_def)
  have m': "symbolMappings m_ex (trim ''AAPL'') = None"
    by (simp add: m_ex_def string_defs)
  have n': "trim ''AAPL'' \<notin> set object_prototype_names"
    by (simp add: object_prototype_names_def string_defs)
  have t': "trim ''AAPL'' = ''AAPL''"
    by (simp add: string_defs)
  have plain: "map_sum id symbol (handleImport_row isCash_ex accounts_ex hs_ex m_ex row_buy) = Inr (PStr ''AAPL'')"
    using symbol_resolution [OF s' r'] r' m' n' t' by simp
  show ?thesis
    using mapped plain s m s' m' n' by simp
qed

text \<open>
  The claim C8 as it is written fails in two ways. The example mapping has an entry for
  \<^verbatim>\<open>MSFT.X\<close>, the empty string, and the record keeps the symbol \<^verbatim>\<open>MSFT.X\<close> instead of
  taking the entry. The mapping has no entry for \<^verbatim>\<open>constructor\<close>, and the record's symbol
  for that cell is not the cell but the member that the object inherits under that name.
\<close>

theorem symbol_entry_not_taken:
  "getMappedValue hs_ex m_ex row_div Symbol = Str ''MSFT.X'' \<and>
   symbolMappings m_ex (trim ''MSFT.X'') = Some [] \<and>
   map_sum id symbol (handleImport_row isCash_ex accounts_ex hs_ex m_ex row_div) = Inr (PStr ''MSFT.X'') \<and>
   getMappedValue hs_ex m_ex row_ctor Symbol = Str ''constructor'' \<and>
   symbolMappings m_ex (trim ''constructor'') = None \<and>
   map_sum id symbol (handleImport_row isCash_ex accounts_ex hs_ex m_ex row_ctor) =
     Inr (PInherited ''constructor'') \<and>
   PInherited ''constructor'' \<noteq> PStr (trim ''constructor'')"
  by (simp add: row_defs resolver_defs row_div_def row_ctor_def string_defs Let_def)

section \<open>Properties of the save-and-check mutation\<close>

text \<open>The three runs of the mutation, event by event.\<close>

lemma mutation_save_rejected:
  "saveAccountImportMapping be data = Some e \<Longrightarrow>
     saveAndCheckImportMutation opts be data acts =
       ([SaveAccountImportMapping data]
          @ call_opt (onError opts) (''Import failed: '' @ ToString (message e))
          @ [Toast ''Error importing activities'' (message e)],
        Inl e)"
  by (simp add: saveAndCheckImportMutation_def mutationFn_def)

lemma mutation_check_rejected:
  "saveAccountImportMapping be data = None \<Longrightarrow>
   checkActivitiesImport be (accountId data) acts = Inl e \<Longrightarrow>
     saveAndCheckImportMutation opts be data acts =
       ([SaveAccountImportMapping data, CheckActivitiesImport (accountId data) acts]
          @ call_opt (onError opts) (''Import failed: '' @ ToString (message e))
          @ [Toast ''Error importing activities'' (message e)],
        Inl e)"
  by (simp add: saveAndCheckImportMutation_def mutationFn_def)

lemma mutation_resolved:
  "saveAccountImportMapping be data = None \<Longrightarrow>
   checkActivitiesImport be (accountId data) acts = Inr result \<Longrightarrow>
     saveAndCheckImportMutation opts be data acts =
       ([SaveAccountImportMapping data, CheckActivitiesImport (accountId data) acts, InvalidateQueries]
          @ call_opt (onSuccess opts) result,
        Inr result)"
  by (simp add: saveAndCheckImportMutation_def mutationFn_def)

lemma call_opt_no_backend:
  "filter is_save (call_opt f x) = [] \<and> filter is_check (call_opt f x) = []"
  by (cases f) simp_all

lemma call_opt_persisted: "persisted be (call_opt f x @ es) st = persisted be es st"
  by (cases f) simp_all

lemma call_opt_Some: "f = Some cb \<Longrightarrow> call_opt f x = [Callback (cb x)]"
  by simp

text \<open>In every run a check comes only after the save of the same mapping, and that save resolved.\<close>

lemma check_after_save:
  assumes "fst (saveAndCheckImportMutation opts be data acts) = pre @ CheckActivitiesImport a x # post"
  shows "pre = [SaveAccountImportMapping data] \<and> saveAccountImportMapping be data = None"
proof (cases "saveAccountImportMapping be data")
  case None
  show ?thesis
  proof (cases "checkActivitiesImport be (accountId data) acts")
    case (Inl e)
    with None assms show ?thesis
      by (cases "onError opts")
         (auto simp: mutation_check_rejected Cons_eq_append_conv append_eq_Cons_conv)
  next
    case (Inr result)
    with None assms show ?thesis
      by (cases "onSuccess opts")
         (auto simp: mutation_resolved Cons_eq_append_conv append_eq_Cons_conv)
  qed
next
  case (Some e)
  with assms show ?thesis
    by (cases "onError opts")
       (auto simp: mutation_save_rejected Cons_eq_append_conv append_eq_Cons_conv)
qed

text \<open>Every run starts with the save; when the save resolves the check follows at once.\<close>

lemma mutation_starts_with_save:
  "\<exists>es. fst (saveAndCheckImportMutation opts be data acts) = SaveAccountImportMapping data # es"
  by (cases "saveAccountImportMapping be data";
      cases "checkActivitiesImport be (accountId data) acts")
     (simp_all add: mutation_save_rejected mutation_check_rejected mutation_resolved)

lemma mutation_check_follows:
  "saveAccountImportMapping be data = None \<Longrightarrow>
     \<exists>es. fst (saveAndCheckImportMutation opts be data acts) =
       SaveAccountImportMapping data # CheckActivitiesImport (accountId data) acts # es"
  by (cases "checkActivitiesImport be (accountId data) acts")
     (simp_all add: mutation_check_rejected mutation_resolved)

text \<open>
  C5. Every run of the mutation starts with the save of the mapping, and when the save
  resolves the check of the activities is submitted next; a check is never submitted
  except after the save has resolved. When the save rejects, no check is submitted and
  the caller's \<^verbatim>\<open>onError\<close> callback is called with the failure. When the save resolves
  and the check rejects, the mapping is in the store afterwards, the callback is called
  with the failure, and the run holds exactly one save and one check: nothing is retried
  and nothing undoes the save. When both resolve, the run holds exactly one save and one
  check, the mapping is in the store, the cached mapping is invalidated and the caller's
  \<^verbatim>\<open>onSuccess\<close> callback is called with the result of the check.
\<close>

theorem save_then_check:
  "(\<forall>pre a x post.
      fst (saveAndCheckImportMutation opts be data acts) = pre @ CheckActivitiesImport a x # post \<longrightarrow>
        pre = [SaveAccountImportMapping data] \<and> saveAccountImportMapping be data = None) \<and>
   (\<forall>e. saveAccountImportMapping be data = Some e \<longrightarrow>
      filter is_check (fst (saveAndCheckImportMutation opts be data acts)) = [] \<and>
      filter is_save (fst (saveAndCheckImportMutation opts be data acts)) = [SaveAccountImportMapping data] \<and>
      snd (saveAndCheckImportMutation opts be data acts) = Inl e \<and>
      (\<forall>cb. onError opts = Some cb \<longrightarrow>
         Callback (cb (''Import failed: '' @ ToString (message e)))
           \<in> set (fst (saveAndCheckImportMutation opts be data acts)))) \<and>
   (\<forall>e. saveAccountImportMapping be data = None \<and>
        checkActivitiesImport be (accountId data) acts = Inl e \<longrightarrow>
      persisted be (fst (saveAndCheckImportMutation opts be data acts)) st (accountId data) = Some data \<and>
      filter is_save (fst (saveAndCheckImportMutation opts be data acts)) = [SaveAccountImportMapping data] \<and>
      filter is_check (fst (saveAndCheckImportMutation opts be data acts)) =
        [CheckActivitiesImport (accountId data) acts] \<and>
      snd (saveAndCheckImportMutation opts be data acts) = Inl e \<and>
      (\<forall>cb. onError opts = Some cb \<longrightarrow>
         Callback (cb (''Import failed: '' @ ToString (message e)))
           \<in> set (fst (saveAndCheckImportMutation opts be data acts)))) \<and>
   (\<exists>es. fst (saveAndCheckImportMutation opts be data acts) = SaveAccountImportMapping data # es) \<and>
   (saveAccountImportMapping be data = None \<longrightarrow>
      (\<exists>es. fst (saveAndCheckImportMutation opts be data acts) =
         SaveAccountImportMapping data # CheckActivitiesImport (accountId data) acts # es)) \<and>
   (\<forall>result. saveAccountImportMapping be data = None \<and>
        checkActivitiesImport be (accountId data) acts = Inr result \<longrightarrow>
      persisted be (fst (saveAndCheckImportMutation opts be data acts)) st (accountId data) = Some data \<and>
      filter is_save (fst (saveAndCheckImportMutation opts be data acts)) = [SaveAccountImportMapping data] \<and>
      filter is_check (fst (saveAndCheckImportMutation opts be data acts)) =
        [CheckActivitiesImport (accountId data) acts] \<and>
      snd (saveAndCheckImportMutation opts be data acts) = Inr result \<and>
      InvalidateQueries \<in> set (fst (saveAndCheckImportMutation opts be data acts)) \<and>
      (\<forall>cb. onSuccess opts = Some cb \<longrightarrow>
         Callback (cb result) \<in> set (fst (saveAndCheckImportMutation opts be data acts))))"
proof (intro conjI allI impI)
  fix pre a x post
  assume "fst (saveAndCheckImportMutation opts be data acts) = pre @ CheckActivitiesImport a x # post"
  then show "pre = [SaveAccountImportMapping data]" and "saveAccountImportMapping be data = None"
    by (simp_all add: check_after_save)
next
  fix e
  assume s: "saveAccountImportMapping be data = Some e"
  show "filter is_check (fst (saveAndCheckImportMutation opts be data acts)) = []"
    and "filter is_save (fst (saveAndCheckImportMutation opts be data acts)) = [SaveAccountImportMapping data]"
    and "snd (saveAndCheckImportMutation opts be data acts) = Inl e"
    using s by (simp_all add: mutation_save_rejected call_opt_no_backend)
  fix cb
  assume "onError opts = Some cb"
  with s show "Callback (cb (''Import failed: '' @ ToString (message e)))
      \<in> set (fst (saveAndCheckImportMutation opts be data acts))"
    by (simp add: mutation_save_rejected)
next
  fix e
  assume "saveAccountImportMapping be data = None \<and>
      checkActivitiesImport be (accountId data) acts = Inl e"
  then have s: "saveAccountImportMapping be data = None"
    and c: "checkActivitiesImport be (accountId data) acts = Inl e"
    by simp_all
  show "persisted be (fst (saveAndCheckImportMutation opts be data acts)) st (accountId data) = Some data"
    using s c by (simp add: mutation_check_rejected call_opt_persisted)
  show "filter is_save (fst (saveAndCheckImportMutation opts be data acts)) = [SaveAccountImportMapping data]"
    and "filter is_check (fst (saveAndCheckImportMutation opts be data acts)) =
        [CheckActivitiesImport (accountId data) acts]"
    and "snd (saveAndCheckImportMutation opts be data acts) = Inl e"
    using s c by (simp_all add: mutation_check_rejected call_opt_no_backend)
  fix cb
  assume "onError opts = Some cb"
  with s c show "Callback (cb (''Import failed: '' @ ToString (message e)))
      \<in> set (fst (saveAndCheckImportMutation opts be data acts))"
    by (simp add: mutation_check_rejected)
next
  show "\<exists>es. fst (saveAndCheckImportMutation opts be data acts) = SaveAccountImportMapping data # es"
    by (rule mutation_starts_with_save)
next
  assume "saveAccountImportMapping be data = None"
  then show "\<exists>es. fst (saveAndCheckImportMutation opts be data acts) =
       SaveAccountImportMapping data # CheckActivitiesImport (accountId data) acts # es"
    by (rule mutation_check_follows)
next
  fix result
  assume "saveAccountImportMapping be data = None \<and>
      checkActivitiesImport be (accountId data) acts = Inr result"
  then have s: "saveAccountImportMapping be data = None"
    and c: "checkActivitiesImport be (accountId data) acts = Inr result"
    by simp_all
  show "persisted be (fst (saveAndCheckImportMutation opts be data acts)) st (accountId data) = Some data"
    using s c by (simp add: mutation_resolved call_opt_persisted [of _ _ _ "[]", simplified])
  show "filter is_save (fst (saveAndCheckImportMutation opts be data acts)) = [SaveAccountImportMapping data]"
    and "filter is_check (fst (saveAndCheckImportMutation opts be data acts)) =
        [CheckActivitiesImport (accountId data) acts]"
    and "snd (saveAndCheckImportMutation opts be data acts) = Inr result"
    and "InvalidateQueries \<in> set (fst (saveAndCheckImportMutation opts be data acts))"
    using s c by (simp_all add: mutation_resolved call_opt_no_backend)
  fix cb
  assume "onSuccess opts = Some cb"
  with s c show "Callback (cb result) \<in> set (fst (saveAndCheckImportMutation opts be data acts))"
    by (simp add: mutation_resolved)
qed

theorem save_then_check_witness:
  "fst (saveAndCheckImportMutation form_opts be_save_fails m_ex []) =
     [SaveAccountImportMapping m_ex,
      Callback (OnError ''Import failed: Import failed: read-only database''),
      Toast ''Error importing activities'' (Str ''read-only database'')] \<and>
   filter is_check (fst (saveAndCheckImportMutation form_opts be_save_fails m_ex [])) = [] \<and>
   fst (saveAndCheckImportMutation form_opts be_check_fails m_ex []) =
     [SaveAccountImportMapping m_ex,
      CheckActivitiesImport ''acc-1'' [],
      Callback (OnError ''Import failed: Import failed: unknown symbol''),
      Toast ''Error importing activities'' (Str ''unknown symbol'')] \<and>
   persisted be_check_fails (fst (saveAndCheckImportMutation form_opts be_check_fails m_ex []))
     Map.empty ''acc-1'' = Some m_ex \<and>
   fst (saveAndCheckImportMutation form_opts be_ok m_ex []) =
     [SaveAccountImportMapping m_ex,
      CheckActivitiesImport ''acc-1'' [],
      InvalidateQueries,
      Callback (OnSuccess [])] \<and>
   persisted be_ok (fst (saveAndCheckImportMutation form_opts be_ok m_ex []))
     Map.empty ''acc-1'' = Some m_ex \<and>
   snd (saveAndCheckImportMutation form_opts be_ok m_ex []) = Inr []"
proof -
  have 1: "saveAccountImportMapping be_save_fails m_ex = Some (Rejection (Str ''read-only database''))"
    by (simp add: be_save_fails_def)
  have 2: "saveAccountImportMapping be_check_fails m_ex = None \<and>
      checkActivitiesImport be_check_fails (accountId m_ex) [] = Inl (Rejection (Str ''unknown symbol''))"
    by (simp add: be_check_fails_def)
  have 3: "saveAccountImportMapping be_ok m_ex = None \<and>
      checkActivitiesImport be_ok (accountId m_ex) [] = Inr []"
    by (simp add: be_ok_def)
  have a: "accountId m_ex = ''acc-1''"
    by (simp add: m_ex_def)
  have "filter is_check (fst (saveAndCheckImportMutation form_opts be_save_fails m_ex [])) = []"
    using save_then_check [of form_opts be_save_fails m_ex "[]" Map.empty] 1 by blast
  moreover have "persisted be_check_fails (fst (saveAndCheckImportMutation form_opts be_check_fails m_ex []))
     Map.empty (accountId m_ex) = Some m_ex"
    using save_then_check [of form_opts be_check_fails m_ex "[]" Map.empty] 2 by blast
  moreover have "persisted be_ok (fst (saveAndCheckImportMutation form_opts be_ok m_ex []))
     Map.empty (accountId m_ex) = Some m_ex \<and>
     snd (saveAndCheckImportMutation form_opts be_ok m_ex []) = Inr []"
    using save_then_check [of form_opts be_ok m_ex "[]" Map.empty] 3 by blast
  moreover have "fst (saveAndCheckImportMutation form_opts be_save_fails m_ex []) =
     [SaveAccountImportMapping m_ex,
      Callback (OnError ''Import failed: Import failed: read-only database''),
      Toast ''Error importing activities'' (Str ''read-only database'')]"
    using 1 by (simp add: mutation_save_rejected form_opts_def)
  moreover have "fst (saveAndCheckImportMutation form_opts be_check_fails m_ex []) =
     [SaveAccountImportMapping m_ex,
      CheckActivitiesImport ''acc-1'' [],
      Callback (OnError ''Import failed: Import failed: unknown symbol''),
      Toast ''Error importing activities'' (Str ''unknown symbol'')]"
    using 2 a by (simp add: mutation_check_rejected form_opts_def)
  moreover have "fst (saveAndCheckImportMutation form_opts be_ok m_ex []) =
     [SaveAccountImportMapping m_ex,
      CheckActivitiesImport ''acc-1'' [],
      InvalidateQueries,
      Callback (OnSuccess [])]"
    using 3 a by (simp add: mutation_resolved form_opts_def)
  ultimately show ?thesis
    using a by simp
qed

section \<open>Properties of handleImport\<close>

text \<open>With an empty report the mutation runs: the first event is the save of the mapping.\<close>

lemma handleImport_clean:
  assumes "try_map (handleImport_row isCashActivity accounts headers mapping) (tl csvData) = Inr acts"
    and "validateActivities acts = []"
  shows "\<exists>es. handleImport isCashActivity validateActivities be accounts headers mapping csvData =
           SaveAccountImportMapping mapping # es"
  using assms
  by (cases "saveAccountImportMapping be mapping";
      cases "checkActivitiesImport be (accountId mapping) acts")
     (simp_all add: handleImport_def mutation_save_rejected mutation_check_rejected mutation_resolved)

text \<open>
  C4. When all rows are transformed and validating the candidates gives a report that is
  not empty, \<^verbatim>\<open>handleImport\<close> sets the validation errors and does nothing else: no save of
  the mapping, no check of the activities, and the store of mappings is as before.
\<close>

theorem validation_errors_block_import:
  assumes "try_map (handleImport_row isCashActivity accounts headers mapping) (tl csvData) = Inr acts"
    and "validateActivities acts \<noteq> []"
  shows "handleImport isCashActivity validateActivities be accounts headers mapping csvData =
           [SetValidationErrors (validateActivities acts)] \<and>
         filter is_save
           (handleImport isCashActivity validateActivities be accounts headers mapping csvData) = [] \<and>
         filter is_check
           (handleImport isCashActivity validateActivities be accounts headers mapping csvData) = [] \<and>
         persisted be
           (handleImport isCashActivity validateActivities be accounts headers mapping csvData) st = st"
proof -
  have "handleImport isCashActivity validateActivities be accounts headers mapping csvData =
           [SetValidationErrors (validateActivities acts)]"
    using assms by (simp add: handleImport_def Let_def)
  then show ?thesis
    by simp
qed

theorem validation_errors_block_import_witness:
  "handleImport isCash_ex validate_ex be_ok accounts_ex hs_ex m_ex [hs_ex, row_buy, row_bad] =
     [SetValidationErrors [(''2024-01-06'', [''quantity is not a number''])]] \<and>
   filter is_save
     (handleImport isCash_ex validate_ex be_ok accounts_ex hs_ex m_ex [hs_ex, row_buy, row_bad]) = []"
proof -
  obtain r1 where r1: "handleImport_row isCash_ex accounts_ex hs_ex m_ex row_buy = Inr r1"
    by (simp add: row_defs resolver_defs row_buy_def string_defs Let_def)
  obtain r2 where r2: "handleImport_row isCash_ex accounts_ex hs_ex m_ex row_bad = Inr r2"
    by (simp add: row_defs resolver_defs row_bad_def string_defs Let_def)
  have t1: "getMappedActivityType hs_ex m_ex row_buy = Inr ''BUY''"
    by (simp add: row_defs resolver_defs row_buy_def string_defs)
  have t2: "getMappedActivityType hs_ex m_ex row_bad = Inr ''SELL''"
    by (simp add: row_defs resolver_defs row_bad_def string_defs)
  have c: "\<not> isCash_ex ''BUY''" "\<not> isCash_ex ''SELL''"
    by (simp_all add: isCash_ex_def)
  have q1: "quantity r1 = Num 10"
    using position_row_exact [OF t1 c(1) r1]
    by (simp add: resolver_defs row_buy_def number_defs is_ws_def)
  have q2: "quantity r2 = NaN"
    using position_row_exact [OF t2 c(2) r2]
    by (simp add: resolver_defs row_bad_def number_defs is_ws_def)
  have d2: "date r2 = Str ''2024-01-06''"
    using r2 by (auto simp: row_defs resolver_defs row_bad_def string_defs Let_def)
  have rows: "try_map (handleImport_row isCash_ex accounts_ex hs_ex m_ex) (tl [hs_ex, row_buy, row_bad]) =
      Inr [r1, r2]"
    using r1 r2 by simp
  have v: "validate_ex [r1, r2] = [(''2024-01-06'', [''quantity is not a number''])]"
    using q1 q2 d2 by (simp add: validate_ex_def)
  then have ne: "validate_ex [r1, r2] \<noteq> []"
    by simp
  show ?thesis
    using validation_errors_block_import
      [where validateActivities = validate_ex and csvData = "[hs_ex, row_buy, row_bad]"
         and be = be_ok and st = Map.empty, OF rows ne] v
    by simp
qed


end
